theory Spec2Isabelle
  imports Complex_Main
begin

section \<open>Data model (src/types/Shapes.ts)\<close>

text \<open>
  JavaScript numbers are modelled as real numbers: arithmetic is exact, and the values
  NaN and the infinities are outside the model. The one place where the source could
  produce them from finite inputs, a division by zero, is written out as \<open>js_div\<close>.
\<close>

datatype ShapeType = Rectangle | Circle | Line | Select | Arrow | Pen | Text

text \<open>The object type \<^verbatim>\<open>{ x: number; y: number }\<close> of path points and of the drag offset.\<close>

record point =
  point_x :: real
  point_y :: real

text \<open>
  The interface \<^verbatim>\<open>Shape\<close>; the fields are prefixed with \<open>shape_\<close>. An optional field
  that is absent (\<^verbatim>\<open>undefined\<close>) is \<open>None\<close>.
\<close>

record Shape =
  shape_id :: string
  shape_type :: ShapeType
  shape_x :: real
  shape_y :: real
  shape_width :: "real option"
  shape_height :: "real option"
  shape_radius :: "real option"
  shape_x2 :: "real option"
  shape_y2 :: "real option"
  shape_path :: "point list option"

text \<open>\<^verbatim>\<open>v || d\<close> on an optional number: \<^verbatim>\<open>undefined\<close> and \<^verbatim>\<open>0\<close> are falsy.\<close>

definition num_or :: "real option \<Rightarrow> real \<Rightarrow> real" where
  "num_or v d = (case v of None \<Rightarrow> d | Some r \<Rightarrow> if r = 0 then d else r)"

text \<open>Truthiness of a \<^verbatim>\<open>string | null\<close>: \<^verbatim>\<open>null\<close> and the empty string are falsy.\<close>

definition truthy :: "string option \<Rightarrow> bool" where
  "truthy v = (case v of None \<Rightarrow> False | Some str \<Rightarrow> str \<noteq> [])"

text \<open>
  A handler that finishes, or one that throws. The state carried by \<open>Threw\<close> holds the
  state updates that were requested before the exception; the application goes on from it.
\<close>

datatype js_error = TypeError

datatype 'a outcome = Done 'a | Threw js_error 'a

fun state_of :: "'a outcome \<Rightarrow> 'a" where
  "state_of (Done s) = s"
| "state_of (Threw e s) = s"

fun threw :: "'a outcome \<Rightarrow> bool" where
  "threw (Done s) = False"
| "threw (Threw e s) = True"

section \<open>Component state (the \<^verbatim>\<open>useState\<close> cells of Canvas)\<close>

text \<open>
  The state cells of \<^verbatim>\<open>src/components/Canvas.tsx\<close>. The second Canvas source
  (\<^verbatim>\<open>unnamed/part_000\<close>, the touch-aware variant) has the same cells and two more.
  The counters \<open>historyIndex\<close> and the array indices are integers.
\<close>

record canvas_state =
  shapes :: "Shape list"
  isDrawing :: bool
  startX :: real
  startY :: real
  currentShape :: "Shape option"
  selectedShapeId :: "string option"
  offset :: point
  isShiftPressed :: bool
  penPath :: "point list"
  history :: "Shape list list"
  historyIndex :: int

record touch_canvas_state = canvas_state +
  isMobile :: bool
  lastTouchTime :: int

definition initial_state :: canvas_state where
  "initial_state =
     \<lparr>shapes = [], isDrawing = False, startX = 0, startY = 0, currentShape = None,
      selectedShapeId = None, offset = \<lparr>point_x = 0, point_y = 0\<rparr>,
      isShiftPressed = False, penPath = [], history = [[]], historyIndex = 0\<rparr>"

definition initial_touch_state :: touch_canvas_state where
  "initial_touch_state =
     \<lparr>shapes = [], isDrawing = False, startX = 0, startY = 0, currentShape = None,
      selectedShapeId = None, offset = \<lparr>point_x = 0, point_y = 0\<rparr>,
      isShiftPressed = False, penPath = [], history = [[]], historyIndex = 0,
      isMobile = False, lastTouchTime = 0\<rparr>"

section \<open>History manager\<close>

text \<open>
  \<^verbatim>\<open>Array.prototype.slice(0, end)\<close>: a negative \<open>end\<close> counts from the end of the array,
  and the result is clipped to the array.
\<close>

definition slice0 :: "'a list \<Rightarrow> int \<Rightarrow> 'a list" where
  "slice0 xs e =
     (let n = int (length xs);
          k = (if e < 0 then max (n + e) 0 else min e n)
      in take (nat k) xs)"

text \<open>\<^verbatim>\<open>xs[i]\<close>: \<^verbatim>\<open>undefined\<close> (here \<open>None\<close>) outside the array.\<close>

definition js_index :: "'a list \<Rightarrow> int \<Rightarrow> 'a option" where
  "js_index xs i = (if 0 \<le> i \<and> i < int (length xs) then Some (xs ! nat i) else None)"

text \<open>
  \<^verbatim>\<open>saveToHistory\<close>, \<^verbatim>\<open>undo\<close>, \<^verbatim>\<open>redo\<close>, \<^verbatim>\<open>canUndo\<close> and \<^verbatim>\<open>canRedo\<close> have the same
  text in both Canvas sources. The copies \<^verbatim>\<open>[...newShapes]\<close> and \<^verbatim>\<open>[...history[newIndex]]\<close>
  are new arrays with the same elements; spreading \<^verbatim>\<open>undefined\<close> throws a TypeError,
  after \<^verbatim>\<open>setHistoryIndex\<close> has been called.
\<close>

definition saveToHistory ::
  "Shape list \<Rightarrow> 'a canvas_state_scheme \<Rightarrow> 'a canvas_state_scheme" where
  "saveToHistory newShapes s =
     (let newHistory = slice0 (history s) (historyIndex s + 1) @ [newShapes]
      in s\<lparr>history := newHistory, historyIndex := int (length newHistory) - 1\<rparr>)"

definition undo :: "'a canvas_state_scheme \<Rightarrow> 'a canvas_state_scheme outcome" where
  "undo s =
     (if historyIndex s > 0 then
        (let newIndex = historyIndex s - 1;
             s1 = s\<lparr>historyIndex := newIndex\<rparr>
         in case js_index (history s) newIndex of
              None \<Rightarrow> Threw TypeError s1
            | Some snapshot \<Rightarrow> Done (s1\<lparr>shapes := snapshot, selectedShapeId := None\<rparr>))
      else Done s)"

definition redo :: "'a canvas_state_scheme \<Rightarrow> 'a canvas_state_scheme outcome" where
  "redo s =
     (if historyIndex s < int (length (history s)) - 1 then
        (let newIndex = historyIndex s + 1;
             s1 = s\<lparr>historyIndex := newIndex\<rparr>
         in case js_index (history s) newIndex of
              None \<Rightarrow> Threw TypeError s1
            | Some snapshot \<Rightarrow> Done (s1\<lparr>shapes := snapshot, selectedShapeId := None\<rparr>))
      else Done s)"

definition canUndo :: "'a canvas_state_scheme \<Rightarrow> bool" where
  "canUndo s = (historyIndex s > 0)"

definition canRedo :: "'a canvas_state_scheme \<Rightarrow> bool" where
  "canRedo s = (historyIndex s < int (length (history s)) - 1)"

text \<open>Sequences of calls to the history manager.\<close>

datatype history_call = Commit "Shape list" | Undo | Redo

fun apply_call :: "history_call \<Rightarrow> 'a canvas_state_scheme \<Rightarrow> 'a canvas_state_scheme outcome" where
  "apply_call (Commit scene) s = Done (saveToHistory scene s)"
| "apply_call Undo s = undo s"
| "apply_call Redo s = redo s"

text \<open>
  \<open>run_calls\<close> gives the state after the whole sequence; \<open>calls_throw\<close> tells whether
  some call of the sequence threw.
\<close>

fun run_calls :: "history_call list \<Rightarrow> 'a canvas_state_scheme \<Rightarrow> 'a canvas_state_scheme" where
  "run_calls [] s = s"
| "run_calls (c # cs) s = run_calls cs (state_of (apply_call c s))"

fun calls_throw :: "history_call list \<Rightarrow> 'a canvas_state_scheme \<Rightarrow> bool" where
  "calls_throw [] s = False"
| "calls_throw (c # cs) s =
     (threw (apply_call c s) \<or> calls_throw cs (state_of (apply_call c s)))"

text \<open>The history invariant: the cursor is inside the history, and entry 0 is the empty scene.\<close>

definition history_inv :: "'a canvas_state_scheme \<Rightarrow> bool" where
  "history_inv s =
     (0 \<le> historyIndex s \<and> historyIndex s < int (length (history s))
      \<and> js_index (history s) 0 = Some [])"

section \<open>Geometry\<close>

text \<open>
  A division of two numbers. Dividing by zero gives NaN or an infinity in JavaScript,
  which is no real number: \<open>None\<close> stands for such a result.
\<close>

definition js_div :: "real \<Rightarrow> real \<Rightarrow> real option" where
  "js_div a b = (if b = 0 then None else Some (a / b))"

text \<open>\<^verbatim>\<open>d < t\<close> where \<open>d\<close> may be NaN: every comparison with NaN is false.\<close>

definition num_lt :: "real option \<Rightarrow> real \<Rightarrow> bool" where
  "num_lt d t = (case d of None \<Rightarrow> False | Some v \<Rightarrow> v < t)"

text \<open>\<^verbatim>\<open>pointToLineDistance\<close> (the same text in both Canvas sources).\<close>

definition pointToLineDistance ::
  "real \<Rightarrow> real \<Rightarrow> real \<Rightarrow> real \<Rightarrow> real \<Rightarrow> real \<Rightarrow> real option" where
  "pointToLineDistance x y x1 y1 x2 y2 =
     (let A = x - x1;
          B = y - y1;
          C = x2 - x1;
          D = y2 - y1;
          dot = A * C + B * D;
          len_sq = C * C + D * D;
          param = (if len_sq \<noteq> 0 then js_div dot len_sq else Some (- 1))
      in case param of
           None \<Rightarrow> None
         | Some param \<Rightarrow>
             (let xx = (if param < 0 then x1 else if param > 1 then x2 else x1 + param * C);
                  yy = (if param < 0 then y1 else if param > 1 then y2 else y1 + param * D);
                  dx = x - xx;
                  dy = y - yy
              in Some (sqrt (dx * dx + dy * dy))))"

text \<open>
  The loop over the consecutive pairs of a pen path:
  \<^verbatim>\<open>for (i = 0; i < path.length - 1; i++) { if (dist(path[i], path[i+1]) < tol) return true; } return false;\<close>
\<close>

fun pen_hit :: "real \<Rightarrow> real \<Rightarrow> real \<Rightarrow> point list \<Rightarrow> bool" where
  "pen_hit tol x y (p # q # ps) =
     (if num_lt (pointToLineDistance x y (point_x p) (point_y p) (point_x q) (point_y q)) tol
      then True else pen_hit tol x y (q # ps))"
| "pen_hit tol x y ps = False"

text \<open>
  \<^verbatim>\<open>isInsideShape\<close> of \<^verbatim>\<open>src/components/Canvas.tsx\<close>: the margin 8 is applied to lines,
  arrows and pen paths only; rectangles and circles are tested exactly.
\<close>

definition isInsideShape :: "real \<Rightarrow> real \<Rightarrow> Shape \<Rightarrow> bool" where
  "isInsideShape x y shape =
     (case shape_type shape of
        Rectangle \<Rightarrow>
          (let width = num_or (shape_width shape) 0;
               height = num_or (shape_height shape) 0;
               minX = (if width < 0 then shape_x shape + width else shape_x shape);
               maxX = (if width < 0 then shape_x shape else shape_x shape + width);
               minY = (if height < 0 then shape_y shape + height else shape_y shape);
               maxY = (if height < 0 then shape_y shape else shape_y shape + height)
           in x \<ge> minX \<and> x \<le> maxX \<and> y \<ge> minY \<and> y \<le> maxY)
      | Circle \<Rightarrow>
          (let dx = x - shape_x shape;
               dy = y - shape_y shape
           in sqrt (dx * dx + dy * dy) \<le> num_or (shape_radius shape) 0)
      | Line \<Rightarrow>
          num_lt (pointToLineDistance x y (shape_x shape) (shape_y shape)
                    (num_or (shape_x2 shape) 0) (num_or (shape_y2 shape) 0)) 8
      | Arrow \<Rightarrow>
          num_lt (pointToLineDistance x y (shape_x shape) (shape_y shape)
                    (num_or (shape_x2 shape) 0) (num_or (shape_y2 shape) 0)) 8
      | Pen \<Rightarrow>
          (case shape_path shape of
             None \<Rightarrow> False
           | Some path \<Rightarrow> pen_hit 8 x y path)
      | _ \<Rightarrow> False)"

text \<open>
  \<^verbatim>\<open>isInsideShape\<close> of \<^verbatim>\<open>unnamed/part_000\<close>, which reads the state cell \<open>isMobile\<close>:
  \<^verbatim>\<open>const tolerance = isMobile ? 15 : 8\<close> is applied to every kind of shape.
\<close>

definition tolerance :: "bool \<Rightarrow> real" where
  "tolerance mobile = (if mobile then 15 else 8)"

definition isInsideShape_touch :: "bool \<Rightarrow> real \<Rightarrow> real \<Rightarrow> Shape \<Rightarrow> bool" where
  "isInsideShape_touch mobile x y shape =
     (case shape_type shape of
        Rectangle \<Rightarrow>
          (let width = num_or (shape_width shape) 0;
               height = num_or (shape_height shape) 0;
               minX = (if width < 0 then shape_x shape + width else shape_x shape);
               maxX = (if width < 0 then shape_x shape else shape_x shape + width);
               minY = (if height < 0 then shape_y shape + height else shape_y shape);
               maxY = (if height < 0 then shape_y shape else shape_y shape + height)
           in x \<ge> minX - tolerance mobile \<and> x \<le> maxX + tolerance mobile
              \<and> y \<ge> minY - tolerance mobile \<and> y \<le> maxY + tolerance mobile)
      | Circle \<Rightarrow>
          (let dx = x - shape_x shape;
               dy = y - shape_y shape
           in sqrt (dx * dx + dy * dy) \<le> num_or (shape_radius shape) 0 + tolerance mobile)
      | Line \<Rightarrow>
          num_lt (pointToLineDistance x y (shape_x shape) (shape_y shape)
                    (num_or (shape_x2 shape) 0) (num_or (shape_y2 shape) 0)) (tolerance mobile)
      | Arrow \<Rightarrow>
          num_lt (pointToLineDistance x y (shape_x shape) (shape_y shape)
                    (num_or (shape_x2 shape) 0) (num_or (shape_y2 shape) 0)) (tolerance mobile)
      | Pen \<Rightarrow>
          (case shape_path shape of
             None \<Rightarrow> False
           | Some path \<Rightarrow> pen_hit (tolerance mobile) x y path)
      | _ \<Rightarrow> False)"

text \<open>
  The reference notions the hit tests are compared with: the Euclidean distance, the
  bounding box of a rectangle with its sign normalised and a margin added on each side,
  and the point of a segment at parameter \<open>t\<close>.
\<close>

definition euclid_dist :: "real \<Rightarrow> real \<Rightarrow> real \<Rightarrow> real \<Rightarrow> real" where
  "euclid_dist x y ax ay = sqrt ((x - ax)\<^sup>2 + (y - ay)\<^sup>2)"

definition in_expanded_box ::
  "real \<Rightarrow> real \<Rightarrow> real \<Rightarrow> real \<Rightarrow> real \<Rightarrow> real \<Rightarrow> real \<Rightarrow> bool" where
  "in_expanded_box margin ax ay w h x y =
     (min ax (ax + w) - margin \<le> x \<and> x \<le> max ax (ax + w) + margin
      \<and> min ay (ay + h) - margin \<le> y \<and> y \<le> max ay (ay + h) + margin)"

definition projection_param :: "real \<Rightarrow> real \<Rightarrow> real \<Rightarrow> real \<Rightarrow> real \<Rightarrow> real \<Rightarrow> real" where
  "projection_param x y x1 y1 x2 y2 =
     ((x - x1) * (x2 - x1) + (y - y1) * (y2 - y1))
       / ((x2 - x1) * (x2 - x1) + (y2 - y1) * (y2 - y1))"

definition clamp01 :: "real \<Rightarrow> real" where
  "clamp01 t = (if t < 0 then 0 else if t > 1 then 1 else t)"

definition segment_dist :: "real \<Rightarrow> real \<Rightarrow> real \<Rightarrow> real \<Rightarrow> real \<Rightarrow> real \<Rightarrow> real \<Rightarrow> real" where
  "segment_dist t x y x1 y1 x2 y2 =
     euclid_dist x y (x1 + t * (x2 - x1)) (y1 + t * (y2 - y1))"

section \<open>Pointer events\<close>

text \<open>
  \<^verbatim>\<open>canvasRef.current\<close> is \<open>None\<close> while the canvas element is not mounted; otherwise only
  the left and top edge of its bounding rectangle are read. A mouse event gives
  \<^verbatim>\<open>clientX\<close> and \<^verbatim>\<open>clientY\<close>; of a touch event the handlers read the list \<^verbatim>\<open>touches\<close>
  and the first entry of \<^verbatim>\<open>changedTouches\<close>, which the browser never leaves empty.
  \<open>EmptyObject\<close> is the literal \<^verbatim>\<open>{}\<close> that \<^verbatim>\<open>unnamed/part_000\<close> casts to an event.
\<close>

record client_pos =
  clientX :: real
  clientY :: real

record dom_rect =
  rect_left :: real
  rect_top :: real

datatype pointer_event =
    MouseEvent client_pos
  | TouchEvent "client_pos list" client_pos
  | EmptyObject

definition getMousePos :: "dom_rect option \<Rightarrow> client_pos \<Rightarrow> point" where
  "getMousePos canvas e =
     (case canvas of
        None \<Rightarrow> \<lparr>point_x = 0, point_y = 0\<rparr>
      | Some rect \<Rightarrow> \<lparr>point_x = clientX e - rect_left rect, point_y = clientY e - rect_top rect\<rparr>)"

text \<open>
  \<^verbatim>\<open>getPointerPos\<close>: the first touch if there is one, else the first changed touch, else
  the mouse position. It is called after \<^verbatim>\<open>e.preventDefault()\<close> only, so never on \<^verbatim>\<open>{}\<close>.
\<close>

fun client_of :: "pointer_event \<Rightarrow> client_pos option" where
  "client_of (MouseEvent c) = Some c"
| "client_of (TouchEvent (t # ts) c) = Some t"
| "client_of (TouchEvent [] c) = Some c"
| "client_of EmptyObject = None"

definition getPointerPos :: "dom_rect option \<Rightarrow> client_pos \<Rightarrow> point" where
  "getPointerPos canvas c =
     (case canvas of
        None \<Rightarrow> \<lparr>point_x = 0, point_y = 0\<rparr>
      | Some rect \<Rightarrow> \<lparr>point_x = clientX c - rect_left rect, point_y = clientY c - rect_top rect\<rparr>)"

fun is_touch :: "pointer_event \<Rightarrow> bool" where
  "is_touch (TouchEvent ts c) = True"
| "is_touch e = False"

section \<open>Shape construction while drawing\<close>

text \<open>\<^verbatim>\<open>Math.hypot\<close>, \<^verbatim>\<open>Math.atan2\<close> and \<^verbatim>\<open>Math.round\<close> (halves round up).\<close>

definition js_hypot :: "real \<Rightarrow> real \<Rightarrow> real" where
  "js_hypot a b = sqrt (a * a + b * b)"

definition js_atan2 :: "real \<Rightarrow> real \<Rightarrow> real" where
  "js_atan2 dy dx =
     (if dx > 0 then arctan (dy / dx)
      else if dx < 0 then (if dy \<ge> 0 then arctan (dy / dx) + pi else arctan (dy / dx) - pi)
      else if dy > 0 then pi / 2
      else if dy < 0 then - (pi / 2)
      else 0)"

definition js_round :: "real \<Rightarrow> real" where
  "js_round v = of_int \<lfloor>v + 1 / 2\<rfloor>"

text \<open>The body of the rectangle case when the square constraint applies.\<close>

definition square_width :: "real \<Rightarrow> real \<Rightarrow> real" where
  "square_width width height =
     (let size = max \<bar>width\<bar> \<bar>height\<bar> in if width < 0 then - size else size)"

definition square_height :: "real \<Rightarrow> real \<Rightarrow> real" where
  "square_height width height =
     (let size = max \<bar>width\<bar> \<bar>height\<bar> in if height < 0 then - size else size)"

text \<open>The body of the line case when the angle snaps to a multiple of 45 degrees.\<close>

definition snap_end :: "real \<Rightarrow> real \<Rightarrow> real \<Rightarrow> real \<Rightarrow> point" where
  "snap_end sx sy x y =
     (let dx = x - sx;
          dy = y - sy;
          angle = js_atan2 dy dx;
          snapAngle = js_round (angle / (pi / 4)) * (pi / 4);
          distance = js_hypot dx dy
      in \<lparr>point_x = sx + cos snapAngle * distance, point_y = sy + sin snapAngle * distance\<rparr>)"

definition shouldSnapToAngle :: "real \<Rightarrow> real \<Rightarrow> bool" where
  "shouldSnapToAngle dx dy =
     (let angle = js_atan2 dy dx;
          snapAngle = js_round (angle / (pi / 4)) * (pi / 4);
          actualAngle = js_atan2 dy dx
      in \<bar>actualAngle - snapAngle\<bar> < 2 / 10)"

text \<open>
  The \<^verbatim>\<open>switch (selectedTool)\<close> of the pointer-move handlers: the copy of the shape being
  drawn with the fields of the active tool set, and the new \<open>penPath\<close>. \<open>square\<close> and
  \<open>snap\<close> are the conditions of the two constraints, which differ between the sources.
\<close>

definition draw_update ::
  "ShapeType \<Rightarrow> bool \<Rightarrow> bool \<Rightarrow> real \<Rightarrow> real \<Rightarrow> real \<Rightarrow> real \<Rightarrow> point list \<Rightarrow> Shape
   \<Rightarrow> Shape \<times> point list" where
  "draw_update tool square snap sx sy x y path updatedShape =
     (case tool of
        Rectangle \<Rightarrow>
          (let width = x - sx;
               height = y - sy;
               width' = (if square then square_width width height else width);
               height' = (if square then square_height width height else height)
           in (updatedShape\<lparr>shape_width := Some width', shape_height := Some height'\<rparr>, path))
      | Circle \<Rightarrow> (updatedShape\<lparr>shape_radius := Some (js_hypot (x - sx) (y - sy))\<rparr>, path)
      | Line \<Rightarrow>
          (let p2 = (if snap then snap_end sx sy x y else \<lparr>point_x = x, point_y = y\<rparr>)
           in (updatedShape\<lparr>shape_x2 := Some (point_x p2), shape_y2 := Some (point_y p2)\<rparr>, path))
      | Arrow \<Rightarrow> (updatedShape\<lparr>shape_x2 := Some x, shape_y2 := Some y\<rparr>, path)
      | Pen \<Rightarrow>
          (let newPath = path @ [\<lparr>point_x = x, point_y = y\<rparr>]
           in (updatedShape\<lparr>shape_path := Some newPath\<rparr>, newPath))
      | _ \<Rightarrow> (updatedShape, path))"

text \<open>The shape created at pointer-down; \<open>newId\<close> is \<^verbatim>\<open>Date.now().toString()\<close>.\<close>

definition new_shape :: "string \<Rightarrow> ShapeType \<Rightarrow> real \<Rightarrow> real \<Rightarrow> point list option \<Rightarrow> Shape" where
  "new_shape newId tool x y path =
     \<lparr>shape_id = newId, shape_type = tool, shape_x = x, shape_y = y,
      shape_width = None, shape_height = None, shape_radius = None,
      shape_x2 = None, shape_y2 = None, shape_path = path\<rparr>"

text \<open>
  The update function of the drag branch:
  \<^verbatim>\<open>shape.id === selectedShapeId ? { ...shape, x: x - offset.x, y: y - offset.y } : shape\<close>
\<close>

definition move_shape :: "string option \<Rightarrow> point \<Rightarrow> real \<Rightarrow> real \<Rightarrow> Shape \<Rightarrow> Shape" where
  "move_shape sel off x y shape =
     (if Some (shape_id shape) = sel
      then shape\<lparr>shape_x := x - point_x off, shape_y := y - point_y off\<rparr>
      else shape)"

section \<open>Handlers of src/components/Canvas.tsx\<close>

text \<open>
  Each handler is a function from the state at the event to the state after it;
  \<open>tool\<close> is the prop \<^verbatim>\<open>selectedTool\<close>. The cursor style set by the move handler is not
  part of the state. The search \<^verbatim>\<open>for (i = shapes.length - 1; i >= 0; i--)\<close> that
  returns at the first hit is \<open>find\<close> on the reversed list.
\<close>

definition handleMouseDown ::
  "dom_rect option \<Rightarrow> string \<Rightarrow> ShapeType \<Rightarrow> client_pos \<Rightarrow> canvas_state \<Rightarrow> canvas_state" where
  "handleMouseDown canvas newId tool e s =
     (let pos = getMousePos canvas e;
          x = point_x pos;
          y = point_y pos;
          s1 = s\<lparr>startX := x, startY := y\<rparr>
      in if tool = Select then
           (case find (isInsideShape x y) (rev (shapes s)) of
              Some shape \<Rightarrow>
                s1\<lparr>selectedShapeId := Some (shape_id shape),
                   offset := \<lparr>point_x = x - shape_x shape, point_y = y - shape_y shape\<rparr>\<rparr>
            | None \<Rightarrow> s1\<lparr>selectedShapeId := None\<rparr>)
         else if tool = Pen then
           s1\<lparr>isDrawing := True, penPath := [\<lparr>point_x = x, point_y = y\<rparr>],
              currentShape := Some (new_shape newId Pen x y (Some [\<lparr>point_x = x, point_y = y\<rparr>]))\<rparr>
         else
           s1\<lparr>isDrawing := True, currentShape := Some (new_shape newId tool x y None)\<rparr>)"

definition handleMouseMove ::
  "dom_rect option \<Rightarrow> ShapeType \<Rightarrow> client_pos \<Rightarrow> canvas_state \<Rightarrow> canvas_state" where
  "handleMouseMove canvas tool e s =
     (let pos = getMousePos canvas e;
          x = point_x pos;
          y = point_y pos
      in if canvas = None then s
         else if tool = Select \<and> truthy (selectedShapeId s) \<and> \<not> isDrawing s then
           s\<lparr>shapes := map (move_shape (selectedShapeId s) (offset s) x y) (shapes s)\<rparr>
         else if isDrawing s \<and> currentShape s \<noteq> None then
           (let upd = draw_update tool (isShiftPressed s) (isShiftPressed s)
                        (startX s) (startY s) x y (penPath s) (the (currentShape s))
            in s\<lparr>penPath := snd upd, currentShape := Some (fst upd)\<rparr>)
         else s)"

definition handleMouseUp ::
  "ShapeType \<Rightarrow> 'a canvas_state_scheme \<Rightarrow> 'a canvas_state_scheme" where
  "handleMouseUp tool s =
     (let s1 =
        (if isDrawing s \<and> currentShape s \<noteq> None then
           (let newShapes = shapes s @ [the (currentShape s)]
            in (saveToHistory newShapes (s\<lparr>shapes := newShapes\<rparr>))
                 \<lparr>currentShape := None, isDrawing := False, penPath := []\<rparr>)
         else if tool = Select \<and> truthy (selectedShapeId s) then saveToHistory (shapes s) s
         else s)
      in s1\<lparr>selectedShapeId := None\<rparr>)"

text \<open>\<^verbatim>\<open>onMouseLeave={() => { if (isDrawing) { handleMouseUp(); } }}\<close>\<close>

definition onMouseLeave :: "ShapeType \<Rightarrow> canvas_state \<Rightarrow> canvas_state" where
  "onMouseLeave tool s = (if isDrawing s then handleMouseUp tool s else s)"

section \<open>Handlers of unnamed/part_000\<close>

text \<open>
  The handlers of the touch-aware source start with \<^verbatim>\<open>e.preventDefault()\<close>, which throws
  a TypeError when \<open>e\<close> is the literal \<^verbatim>\<open>{}\<close>, before any state update. \<open>now\<close> is the value
  of \<^verbatim>\<open>Date.now()\<close> read for the double-tap test.
\<close>

definition handleShapeSelection :: "real \<Rightarrow> real \<Rightarrow> touch_canvas_state \<Rightarrow> touch_canvas_state" where
  "handleShapeSelection x y s =
     (case find (isInsideShape_touch (isMobile s) x y) (rev (shapes s)) of
        Some shape \<Rightarrow>
          s\<lparr>selectedShapeId := Some (shape_id shape),
            offset := \<lparr>point_x = x - shape_x shape, point_y = y - shape_y shape\<rparr>\<rparr>
      | None \<Rightarrow> s\<lparr>selectedShapeId := None\<rparr>)"

definition start_tool ::
  "string \<Rightarrow> ShapeType \<Rightarrow> real \<Rightarrow> real \<Rightarrow> touch_canvas_state \<Rightarrow> touch_canvas_state" where
  "start_tool newId tool x y s =
     (if tool = Select then handleShapeSelection x y s
      else if tool = Pen then
        s\<lparr>isDrawing := True, penPath := [\<lparr>point_x = x, point_y = y\<rparr>],
          currentShape := Some (new_shape newId Pen x y (Some [\<lparr>point_x = x, point_y = y\<rparr>]))\<rparr>
      else
        s\<lparr>isDrawing := True, currentShape := Some (new_shape newId tool x y None)\<rparr>)"

definition handlePointerDown ::
  "dom_rect option \<Rightarrow> int \<Rightarrow> string \<Rightarrow> ShapeType \<Rightarrow> pointer_event \<Rightarrow> touch_canvas_state
   \<Rightarrow> touch_canvas_state outcome" where
  "handlePointerDown canvas now newId tool e s =
     (case client_of e of
        None \<Rightarrow> Threw TypeError s
      | Some c \<Rightarrow>
          (let pos = getPointerPos canvas c;
               x = point_x pos;
               y = point_y pos;
               s1 = s\<lparr>startX := x, startY := y\<rparr>
           in if isMobile s \<and> is_touch e then
                (let tapLength = now - lastTouchTime s
                 in if tapLength < 500 \<and> tapLength > 0
                    then Done (handleShapeSelection x y s1)
                    else Done (start_tool newId tool x y (s1\<lparr>lastTouchTime := now\<rparr>)))
              else Done (start_tool newId tool x y s1)))"

definition handlePointerMove ::
  "dom_rect option \<Rightarrow> ShapeType \<Rightarrow> pointer_event \<Rightarrow> touch_canvas_state
   \<Rightarrow> touch_canvas_state outcome" where
  "handlePointerMove canvas tool e s =
     (case client_of e of
        None \<Rightarrow> Threw TypeError s
      | Some c \<Rightarrow>
          (let pos = getPointerPos canvas c;
               x = point_x pos;
               y = point_y pos
           in if canvas = None then Done s
              else if tool = Select \<and> truthy (selectedShapeId s) \<and> \<not> isDrawing s then
                Done (s\<lparr>shapes := map (move_shape (selectedShapeId s) (offset s) x y) (shapes s)\<rparr>)
              else if isDrawing s \<and> currentShape s \<noteq> None then
                (let width = x - startX s;
                     height = y - startY s;
                     square = (isShiftPressed s \<or> (isMobile s \<and> \<bar>width - height\<bar> < 50));
                     snap = (isShiftPressed s \<or> (isMobile s \<and> shouldSnapToAngle width height));
                     upd = draw_update tool square snap (startX s) (startY s) x y (penPath s)
                             (the (currentShape s))
                 in Done (s\<lparr>penPath := snd upd, currentShape := Some (fst upd)\<rparr>))
              else Done s))"

definition handlePointerUp ::
  "ShapeType \<Rightarrow> pointer_event \<Rightarrow> touch_canvas_state \<Rightarrow> touch_canvas_state outcome" where
  "handlePointerUp tool e s =
     (case client_of e of
        None \<Rightarrow> Threw TypeError s
      | Some c \<Rightarrow>
          (let s1 =
             (if isDrawing s \<and> currentShape s \<noteq> None then
                (let newShapes = shapes s @ [the (currentShape s)]
                 in (saveToHistory newShapes (s\<lparr>shapes := newShapes\<rparr>))
                      \<lparr>currentShape := None, isDrawing := False, penPath := []\<rparr>)
              else if tool = Select \<and> truthy (selectedShapeId s) then saveToHistory (shapes s) s
              else s)
           in Done (s1\<lparr>selectedShapeId := None\<rparr>)))"

text \<open>
  \<^verbatim>\<open>onMouseLeave={() => { if (isDrawing) { handlePointerUp({} as React.MouseEvent); } }}\<close>,
  and \<^verbatim>\<open>onTouchCancel\<close> with the same body.
\<close>

definition onMouseLeave_touch :: "ShapeType \<Rightarrow> touch_canvas_state \<Rightarrow> touch_canvas_state outcome" where
  "onMouseLeave_touch tool s = (if isDrawing s then handlePointerUp tool EmptyObject s else Done s)"

definition onTouchCancel :: "ShapeType \<Rightarrow> touch_canvas_state \<Rightarrow> touch_canvas_state outcome" where
  "onTouchCancel tool s = (if isDrawing s then handlePointerUp tool EmptyObject s else Done s)"

section \<open>Anchor of a pen shape\<close>

text \<open>
  The property of a pen shape that the first point of its path is its anchor \<open>(x, y)\<close>;
  shapes of the other types are not constrained.
\<close>

definition pen_anchor_ok :: "Shape \<Rightarrow> bool" where
  "pen_anchor_ok sh =
     (if shape_type sh = Pen then
        (case shape_path sh of
           Some (p # ps) \<Rightarrow> point_x p = shape_x sh \<and> point_y p = shape_y sh
         | _ \<Rightarrow> False)
      else True)"

section \<open>Frame of a drag move\<close>

text \<open>
  \<open>same_but_anchor a b\<close>: shape \<open>b\<close> has every field of \<open>a\<close> except possibly \<open>x\<close> and \<open>y\<close>.
  \<open>drag_frame sel a b\<close>: moreover \<open>b\<close> is \<open>a\<close> itself unless the id of \<open>a\<close> is the selected id.
\<close>

definition same_but_anchor :: "Shape \<Rightarrow> Shape \<Rightarrow> bool" where
  "same_but_anchor a b =
     (shape_id b = shape_id a \<and> shape_type b = shape_type a
      \<and> shape_width b = shape_width a \<and> shape_height b = shape_height a
      \<and> shape_radius b = shape_radius a \<and> shape_x2 b = shape_x2 a
      \<and> shape_y2 b = shape_y2 a \<and> shape_path b = shape_path a)"

definition drag_frame :: "string option \<Rightarrow> Shape \<Rightarrow> Shape \<Rightarrow> bool" where
  "drag_frame sel a b = (same_but_anchor a b \<and> (Some (shape_id a) \<noteq> sel \<longrightarrow> b = a))"

section \<open>Example values\<close>

text \<open>
  A square from (0,0) to (50,50), a circle of radius 10 at (100,100), and a canvas element
  whose bounding rectangle starts at the origin.
\<close>

definition example_rect :: Shape where
  "example_rect =
     (new_shape ''1'' Rectangle 0 0 None)\<lparr>shape_width := Some 50, shape_height := Some 50\<rparr>"

definition example_circle :: Shape where
  "example_circle = (new_shape ''2'' Circle 100 100 None)\<lparr>shape_radius := Some 10\<rparr>"

definition example_canvas :: "dom_rect option" where
  "example_canvas = Some \<lparr>rect_left = 0, rect_top = 0\<rparr>"

text \<open>
  Drawing the square with the rectangle tool in the initial state: the state before the
  pointer is released, and the state after it. Then dragging the committed square with the
  select tool, pressed at (25,25) and moved to (30,30).
\<close>

definition example_draw_state :: canvas_state where
  "example_draw_state =
     handleMouseMove example_canvas Rectangle \<lparr>clientX = 50, clientY = 50\<rparr>
       (handleMouseDown example_canvas ''1'' Rectangle \<lparr>clientX = 0, clientY = 0\<rparr>
          initial_state)"

definition example_history_state :: canvas_state where
  "example_history_state = handleMouseUp Rectangle example_draw_state"

definition example_drag_state :: canvas_state where
  "example_drag_state =
     handleMouseMove example_canvas Select \<lparr>clientX = 30, clientY = 30\<rparr>
       (handleMouseDown example_canvas ''2'' Select \<lparr>clientX = 25, clientY = 25\<rparr>
          example_history_state)"

text \<open>The touch-aware component with the square selected and nothing being drawn.\<close>

definition example_touch_drag_state :: touch_canvas_state where
  "example_touch_drag_state =
     initial_touch_state\<lparr>shapes := [example_rect], history := [[], [example_rect]],
       historyIndex := 1, selectedShapeId := Some ''1'',
       offset := \<lparr>point_x = 25, point_y = 25\<rparr>\<rparr>"

text \<open>
  The circle drawn after the square, from (100,100) to (110,100); then one undo, and the
  square pressed with the select tool.
\<close>

definition example_two_shapes_state :: canvas_state where
  "example_two_shapes_state =
     handleMouseUp Circle
       (handleMouseMove example_canvas Circle \<lparr>clientX = 110, clientY = 100\<rparr>
          (handleMouseDown example_canvas ''2'' Circle \<lparr>clientX = 100, clientY = 100\<rparr>
             example_history_state))"

definition example_reselect_state :: canvas_state where
  "example_reselect_state =
     handleMouseDown example_canvas ''3'' Select \<lparr>clientX = 25, clientY = 25\<rparr>
       (state_of (undo example_two_shapes_state))"

text \<open>The square selected in the state with two shapes, in both components.\<close>

definition example_select_two_state :: canvas_state where
  "example_select_two_state =
     example_two_shapes_state\<lparr>selectedShapeId := Some ''1'',
       offset := \<lparr>point_x = 25, point_y = 25\<rparr>\<rparr>"

definition example_touch_two_state :: touch_canvas_state where
  "example_touch_two_state =
     example_touch_drag_state\<lparr>shapes := [example_rect, example_circle]\<rparr>"

text \<open>A rectangle drawn from (50,50) up and to the left, so with negative width and height.\<close>

definition example_flipped_rect :: Shape where
  "example_flipped_rect =
     (new_shape ''4'' Rectangle 50 50 None)\<lparr>shape_width := Some (- 50), shape_height := Some (- 50)\<rparr>"

text \<open>
  A pen stroke from (0,0) to (10,0), drawn and committed; then the stroke pressed with the
  select tool at (5,0), dragged to (5,20) and released.
\<close>

definition example_pen :: Shape where
  "example_pen =
     new_shape ''7'' Pen 0 0 (Some [\<lparr>point_x = 0, point_y = 0\<rparr>, \<lparr>point_x = 10, point_y = 0\<rparr>])"

definition example_pen_drawn :: canvas_state where
  "example_pen_drawn =
     handleMouseUp Pen
       (handleMouseMove example_canvas Pen \<lparr>clientX = 10, clientY = 0\<rparr>
          (handleMouseDown example_canvas ''7'' Pen \<lparr>clientX = 0, clientY = 0\<rparr> initial_state))"

definition example_pen_dragged :: canvas_state where
  "example_pen_dragged =
     handleMouseUp Select
       (handleMouseMove example_canvas Select \<lparr>clientX = 5, clientY = 20\<rparr>
          (handleMouseDown example_canvas ''8'' Select \<lparr>clientX = 5, clientY = 0\<rparr>
             example_pen_drawn))"

section \<open>The example states, evaluated\<close>

lemma example_draw_state_eq:
  "example_draw_state =
     initial_state\<lparr>isDrawing := True, currentShape := Some example_rect\<rparr>"
  by (simp add: example_draw_state_def initial_state_def
      handleMouseMove_def handleMouseDown_def example_canvas_def getMousePos_def Let_def
      example_rect_def new_shape_def draw_update_def)

lemma example_history_state_eq:
  "example_history_state =
     initial_state\<lparr>shapes := [example_rect], history := [[], [example_rect]], historyIndex := 1\<rparr>"
  by (simp add: example_history_state_def example_draw_state_eq initial_state_def
      handleMouseUp_def saveToHistory_def slice0_def Let_def)

lemma example_drag_state_eq:
  "example_drag_state =
     \<lparr>shapes = [example_rect\<lparr>shape_x := 5, shape_y := 5\<rparr>], isDrawing = False,
      startX = 25, startY = 25, currentShape = None, selectedShapeId = Some ''1'',
      offset = \<lparr>point_x = 25, point_y = 25\<rparr>, isShiftPressed = False, penPath = [],
      history = [[], [example_rect]], historyIndex = 1\<rparr>"
  by (simp add: example_drag_state_def example_history_state_eq initial_state_def
      handleMouseMove_def handleMouseDown_def example_canvas_def getMousePos_def Let_def
      isInsideShape_def example_rect_def new_shape_def num_or_def truthy_def move_shape_def)

lemma sqrt_100: "sqrt 100 = 10"
  using real_sqrt_abs [of 10] by simp

lemma example_two_shapes_state_eq:
  "example_two_shapes_state =
     \<lparr>shapes = [example_rect, example_circle], isDrawing = False,
      startX = 100, startY = 100, currentShape = None, selectedShapeId = None,
      offset = \<lparr>point_x = 0, point_y = 0\<rparr>, isShiftPressed = False, penPath = [],
      history = [[], [example_rect], [example_rect, example_circle]], historyIndex = 2\<rparr>"
  by (simp add: example_two_shapes_state_def example_history_state_eq initial_state_def
      handleMouseUp_def handleMouseMove_def handleMouseDown_def example_canvas_def
      getMousePos_def Let_def draw_update_def js_hypot_def sqrt_100 example_circle_def
      new_shape_def saveToHistory_def slice0_def)

lemma example_reselect_state_eq:
  "example_reselect_state =
     \<lparr>shapes = [example_rect], isDrawing = False,
      startX = 25, startY = 25, currentShape = None, selectedShapeId = Some ''1'',
      offset = \<lparr>point_x = 25, point_y = 25\<rparr>, isShiftPressed = False, penPath = [],
      history = [[], [example_rect], [example_rect, example_circle]], historyIndex = 1\<rparr>"
  by (simp add: example_reselect_state_def example_two_shapes_state_eq
      handleMouseDown_def example_canvas_def getMousePos_def Let_def undo_def js_index_def
      isInsideShape_def example_rect_def new_shape_def num_or_def)

section \<open>History manager: proofs\<close>

lemma slice0_in_range:
  "0 \<le> e \<Longrightarrow> slice0 xs e = take (nat e) xs"
  by (simp add: slice0_def Let_def min_def)

lemma history_inv_saveToHistory:
  assumes "history_inv s"
  shows "history_inv (saveToHistory scene s)"
proof -
  from assms have i: "0 \<le> historyIndex s" and n: "history s \<noteq> []"
    and z: "history s ! 0 = []"
    by (auto simp: history_inv_def js_index_def split: if_splits)
  have sl: "slice0 (history s) (historyIndex s + 1) = take (nat (historyIndex s + 1)) (history s)"
    using i by (simp add: slice0_in_range)
  have pos: "0 < nat (historyIndex s + 1)" using i by simp
  have ne: "take (nat (historyIndex s + 1)) (history s) \<noteq> []"
    using n pos by (cases "history s") (auto simp: take_Cons')
  have hd0: "(take (nat (historyIndex s + 1)) (history s) @ [scene]) ! 0 = []"
    using ne z pos by (simp add: nth_append)
  show ?thesis
    using hd0 by (simp add: history_inv_def saveToHistory_def Let_def sl js_index_def)
qed

lemma undo_inv:
  assumes "history_inv s"
  shows "history_inv (state_of (undo s)) \<and> \<not> threw (undo s)"
  using assms
  by (auto simp: history_inv_def undo_def Let_def js_index_def split: if_splits)

lemma redo_inv:
  assumes "history_inv s"
  shows "history_inv (state_of (redo s)) \<and> \<not> threw (redo s)"
  using assms
  by (auto simp: history_inv_def redo_def Let_def js_index_def split: if_splits)

lemma apply_call_inv:
  assumes "history_inv s"
  shows "history_inv (state_of (apply_call c s)) \<and> \<not> threw (apply_call c s)"
  using assms
  by (cases c) (simp_all add: history_inv_saveToHistory undo_inv redo_inv)

lemma run_calls_inv:
  "history_inv s \<Longrightarrow> history_inv (run_calls cs s) \<and> \<not> calls_throw cs s"
proof (induction cs arbitrary: s)
  case Nil
  then show ?case by simp
next
  case (Cons c cs)
  from Cons.prems have step: "history_inv (state_of (apply_call c s))"
    and quiet: "\<not> threw (apply_call c s)"
    using apply_call_inv by blast+
  from Cons.IH [OF step] quiet show ?case by simp
qed

lemma initial_history_inv:
  "history s = [[]] \<Longrightarrow> historyIndex s = 0 \<Longrightarrow> history_inv s"
  by (simp add: history_inv_def js_index_def)

text \<open>
  C1. Starting from the initial history (\<open>history = [[]]\<close>, \<open>historyIndex = 0\<close>), after every
  sequence of commit (\<open>saveToHistory\<close>), undo and redo calls the cursor satisfies
  \<open>0 \<le> historyIndex < length history\<close> and \<open>history[0]\<close> is the empty scene; none of the
  calls throws. The statement covers every prefix of a sequence, since a prefix is a
  sequence.
\<close>

theorem C1_history_invariant:
  assumes "history s = [[]]" and "historyIndex s = 0"
  shows "0 \<le> historyIndex (run_calls cs s)
         \<and> historyIndex (run_calls cs s) < int (length (history (run_calls cs s)))
         \<and> js_index (history (run_calls cs s)) 0 = Some []
         \<and> \<not> calls_throw cs s"
  using run_calls_inv [OF initial_history_inv [OF assms], of cs]
  by (simp add: history_inv_def)

theorem C1_history_invariant_witness:
  "history initial_state = [[]] \<and> historyIndex initial_state = 0
   \<and> 0 \<le> historyIndex (run_calls [Commit [example_rect], Undo, Redo, Undo] initial_state)
   \<and> historyIndex (run_calls [Commit [example_rect], Undo, Redo, Undo] initial_state)
       < int (length (history (run_calls [Commit [example_rect], Undo, Redo, Undo] initial_state)))
   \<and> js_index (history (run_calls [Commit [example_rect], Undo, Redo, Undo] initial_state)) 0 = Some []
   \<and> \<not> calls_throw [Commit [example_rect], Undo, Redo, Undo] initial_state"
  using C1_history_invariant [of initial_state "[Commit [example_rect], Undo, Redo, Undo]"]
  by (simp add: initial_state_def)

text \<open>
  C2, amended. In a state whose cursor is above 0 and whose history entry at the cursor is
  the scene shown (\<open>history[historyIndex] = shapes\<close>, so the cursor is inside the history and
  no uncommitted change is pending), \<open>undo\<close> followed by \<open>redo\<close> throws nothing and gives
  back the state before the undo: the same scene, the same cursor and the same history.
  Only the selection differs, which both calls clear.
\<close>

theorem C2_undo_redo_inverse:
  assumes "0 < historyIndex s"
    and "js_index (history s) (historyIndex s) = Some (shapes s)"
  shows "undo s = Done (state_of (undo s))
         \<and> redo (state_of (undo s)) = Done (s\<lparr>selectedShapeId := None\<rparr>)"
  using assms
  by (auto simp: undo_def redo_def Let_def js_index_def split: if_splits)

theorem C2_undo_redo_inverse_witness:
  "0 < historyIndex example_history_state
   \<and> js_index (history example_history_state) (historyIndex example_history_state)
       = Some (shapes example_history_state)
   \<and> undo example_history_state = Done (state_of (undo example_history_state))
   \<and> redo (state_of (undo example_history_state))
       = Done (example_history_state\<lparr>selectedShapeId := None\<rparr>)
   \<and> shapes (state_of (redo (state_of (undo example_history_state)))) = [example_rect]
   \<and> shapes (state_of (undo example_history_state)) = []"
  using C2_undo_redo_inverse [of example_history_state]
  by (simp add: example_history_state_eq initial_state_def js_index_def undo_def Let_def)

text \<open>
  C2, as stated, fails: while the square is being dragged (pressed at (25,25), moved to
  (30,30), not yet released) the scene shown holds the square at (5,5), the cursor is 1
  and the history entry at the cursor holds the square at (0,0). \<open>undo\<close> followed by
  \<open>redo\<close> shows the committed entry, not the scene that was shown before the undo.
\<close>

theorem C2_undo_redo_uncommitted_counterexample:
  "0 < historyIndex example_drag_state
   \<and> historyIndex example_drag_state < int (length (history example_drag_state))
   \<and> shapes example_drag_state = [example_rect\<lparr>shape_x := 5, shape_y := 5\<rparr>]
   \<and> shapes (state_of (redo (state_of (undo example_drag_state)))) = [example_rect]
   \<and> shapes (state_of (redo (state_of (undo example_drag_state)))) \<noteq> shapes example_drag_state"
  by (simp add: example_drag_state_eq undo_def redo_def js_index_def Let_def)
    (simp add: example_rect_def new_shape_def)

text \<open>
  C3. In a state where \<open>canUndo\<close> holds, after \<open>undo\<close> and then a commit of any scene,
  \<open>canRedo\<close> is false: the commit keeps the entries up to the cursor left by the undo,
  drops the entries beyond it, appends the scene and puts the cursor on the new last index.
\<close>

theorem C3_commit_truncation:
  assumes "canUndo s"
  shows "\<not> canRedo (saveToHistory scene (state_of (undo s)))
         \<and> historyIndex (state_of (undo s)) = historyIndex s - 1
         \<and> history (saveToHistory scene (state_of (undo s)))
             = take (nat (historyIndex (state_of (undo s)) + 1)) (history s) @ [scene]
         \<and> historyIndex (saveToHistory scene (state_of (undo s)))
             = int (length (history (saveToHistory scene (state_of (undo s))))) - 1"
  using assms
  by (auto simp: canUndo_def canRedo_def saveToHistory_def undo_def Let_def slice0_in_range
           split: option.splits)

theorem C3_commit_truncation_witness:
  "canUndo example_history_state
   \<and> \<not> canRedo (saveToHistory [] (state_of (undo example_history_state)))
   \<and> history (saveToHistory [] (state_of (undo example_history_state))) = [[], []]
   \<and> historyIndex (saveToHistory [] (state_of (undo example_history_state))) = 1"
  using C3_commit_truncation [of example_history_state "[]"]
  by (simp add: example_history_state_eq initial_state_def canUndo_def)

section \<open>Pointer leave and pointer up: proofs\<close>

text \<open>
  C4, as stated, fails: the square is being dragged with the select tool (pressed at (25,25),
  moved to (30,30), so it is selected and nothing is being drawn). When the pointer leaves
  the canvas the handler \<open>onMouseLeave\<close> changes nothing: the history still ends with the
  square at (0,0) and the shape stays selected, whereas a pointer-up in the same state
  commits the moved scene and clears the selection.
\<close>

theorem C4_leave_while_dragging_counterexample:
  "\<not> isDrawing example_drag_state \<and> truthy (selectedShapeId example_drag_state)
   \<and> onMouseLeave Select example_drag_state = example_drag_state
   \<and> history (onMouseLeave Select example_drag_state) = [[], [example_rect]]
   \<and> history (handleMouseUp Select example_drag_state)
       = [[], [example_rect], [example_rect\<lparr>shape_x := 5, shape_y := 5\<rparr>]]
   \<and> selectedShapeId (handleMouseUp Select example_drag_state) = None
   \<and> onMouseLeave Select example_drag_state \<noteq> handleMouseUp Select example_drag_state"
  by (simp add: example_drag_state_eq onMouseLeave_def handleMouseUp_def truthy_def
      saveToHistory_def slice0_def Let_def)

lemma handleMouseUp_drawing:
  assumes "isDrawing s" and "currentShape s = Some cur"
  shows "handleMouseUp tool s =
           s\<lparr>shapes := shapes s @ [cur],
             history := slice0 (history s) (historyIndex s + 1) @ [shapes s @ [cur]],
             historyIndex := int (length (slice0 (history s) (historyIndex s + 1))),
             currentShape := None, isDrawing := False, penPath := [],
             selectedShapeId := None\<rparr>"
  using assms by (simp add: handleMouseUp_def saveToHistory_def Let_def)

text \<open>
  C4, amended. In \<^verbatim>\<open>src/components/Canvas.tsx\<close>, when the pointer leaves the canvas while a
  shape is being drawn (\<open>isDrawing\<close> with a current shape), the handler does exactly what
  pointer-up does: the shape in progress is appended to the scene, the scene is committed
  to the history, and drawing ends with no current shape and no selection. When nothing is
  being drawn, which includes a drag in progress, the leave handlers of both sources
  (and the touch-cancel handler) change nothing and commit nothing.
\<close>

theorem C4_pointer_leave:
  "(isDrawing s \<longrightarrow> onMouseLeave tool s = handleMouseUp tool s)
   \<and> (isDrawing s \<and> currentShape s = Some cur \<longrightarrow>
      shapes (onMouseLeave tool s) = shapes s @ [cur]
      \<and> history (onMouseLeave tool s)
          = slice0 (history s) (historyIndex s + 1) @ [shapes s @ [cur]]
      \<and> \<not> isDrawing (onMouseLeave tool s)
      \<and> currentShape (onMouseLeave tool s) = None
      \<and> selectedShapeId (onMouseLeave tool s) = None)
   \<and> (\<not> isDrawing d \<longrightarrow> onMouseLeave tool d = d)
   \<and> (\<not> isDrawing t \<longrightarrow> onMouseLeave_touch tool t = Done t \<and> onTouchCancel tool t = Done t)"
  by (simp add: onMouseLeave_def onMouseLeave_touch_def onTouchCancel_def handleMouseUp_drawing)

theorem C4_pointer_leave_witness:
  "isDrawing example_draw_state \<and> currentShape example_draw_state = Some example_rect
   \<and> onMouseLeave Rectangle example_draw_state = handleMouseUp Rectangle example_draw_state
   \<and> shapes (onMouseLeave Rectangle example_draw_state) = [example_rect]
   \<and> history (onMouseLeave Rectangle example_draw_state) = [[], [example_rect]]
   \<and> \<not> isDrawing (onMouseLeave Rectangle example_draw_state)
   \<and> \<not> isDrawing example_drag_state
   \<and> onMouseLeave Rectangle example_drag_state = example_drag_state
   \<and> \<not> isDrawing example_touch_drag_state
   \<and> onMouseLeave_touch Rectangle example_touch_drag_state = Done example_touch_drag_state
   \<and> onTouchCancel Rectangle example_touch_drag_state = Done example_touch_drag_state"
proof -
  have a: "isDrawing example_draw_state \<and> currentShape example_draw_state = Some example_rect"
    by (simp add: example_draw_state_eq initial_state_def)
  have b: "\<not> isDrawing example_drag_state"
    by (simp add: example_drag_state_eq)
  have c: "\<not> isDrawing example_touch_drag_state"
    by (simp add: example_touch_drag_state_def initial_touch_state_def)
  have sh: "shapes example_draw_state = []"
    by (simp add: example_draw_state_eq initial_state_def)
  have hi: "slice0 (history example_draw_state) (historyIndex example_draw_state + 1) = [[]]"
    by (simp add: example_draw_state_eq initial_state_def slice0_def)
  show ?thesis
    using C4_pointer_leave [where s = example_draw_state and cur = example_rect
        and tool = Rectangle and d = example_drag_state and t = example_touch_drag_state] a b c
    by (auto simp: sh hi)
qed

text \<open>
  In \<^verbatim>\<open>unnamed/part_000\<close> the leave and the touch-cancel handler pass the literal \<^verbatim>\<open>{}\<close> to
  \<^verbatim>\<open>handlePointerUp\<close>, whose first statement \<^verbatim>\<open>e.preventDefault()\<close> then throws: while a
  shape is being drawn nothing is committed there.
\<close>

lemma onMouseLeave_touch_drawing:
  "isDrawing t \<Longrightarrow> onMouseLeave_touch tool t = Threw TypeError t \<and> onTouchCancel tool t = Threw TypeError t"
  by (simp add: onMouseLeave_touch_def onTouchCancel_def handlePointerUp_def)

text \<open>
  C10, as stated, fails: after two commits and one undo the history has three entries and
  the cursor is on the second. The square is pressed with the select tool and released
  without a move: the commit replaces the entry beyond the cursor, and the history still
  has three entries, not four.
\<close>

theorem C10_select_pointer_up_counterexample:
  "truthy (selectedShapeId example_reselect_state) \<and> \<not> isDrawing example_reselect_state
   \<and> history (handleMouseUp Select example_reselect_state)
       = [[], [example_rect], [example_rect]]
   \<and> length (history example_reselect_state) = 3
   \<and> length (history (handleMouseUp Select example_reselect_state))
       \<noteq> length (history example_reselect_state) + 1"
  by (simp add: example_reselect_state_eq handleMouseUp_def truthy_def
      saveToHistory_def slice0_def Let_def)

lemma handlePointerUp_eq:
  "client_of e = Some c \<Longrightarrow> handlePointerUp tool e t = Done (handleMouseUp tool t)"
  by (simp add: handlePointerUp_def handleMouseUp_def Let_def)

lemma handleMouseUp_select:
  assumes "truthy (selectedShapeId s)" and "\<not> (isDrawing s \<and> currentShape s \<noteq> None)"
    and "0 \<le> historyIndex s"
  shows "handleMouseUp Select s =
           s\<lparr>history := take (nat (historyIndex s + 1)) (history s) @ [shapes s],
             historyIndex := int (length (take (nat (historyIndex s + 1)) (history s))),
             selectedShapeId := None\<rparr>"
  using assms by (auto simp: handleMouseUp_def saveToHistory_def Let_def slice0_in_range)

text \<open>
  C10, amended. A pointer-up with the select tool active and a shape selected, when no
  shape is being drawn and the cursor is inside the history, commits the current scene
  whether or not the pointer moved: the history becomes the entries up to the cursor
  followed by the scene, the cursor advances by one to the last index, the scene is
  unchanged, \<open>canUndo\<close> is true, \<open>canRedo\<close> is false and the selection is cleared. The
  history grows by one entry when the cursor was on the last entry; and when the entry at
  the cursor was the scene shown, the new entry equals its predecessor. The pointer-up
  handler of \<^verbatim>\<open>unnamed/part_000\<close> does the same on a mouse or touch event.
\<close>

theorem C10_select_pointer_up:
  fixes s :: "'a canvas_state_scheme"
  assumes "truthy (selectedShapeId s)" and "\<not> (isDrawing s \<and> currentShape s \<noteq> None)"
    and "0 \<le> historyIndex s" and "historyIndex s < int (length (history s))"
    and "client_of e = Some c"
  shows "handlePointerUp Select e t = Done (handleMouseUp Select t)
         \<and> shapes (handleMouseUp Select s) = shapes s
         \<and> history (handleMouseUp Select s)
             = take (nat (historyIndex s + 1)) (history s) @ [shapes s]
         \<and> historyIndex (handleMouseUp Select s) = historyIndex s + 1
         \<and> canUndo (handleMouseUp Select s) \<and> \<not> canRedo (handleMouseUp Select s)
         \<and> selectedShapeId (handleMouseUp Select s) = None
         \<and> (historyIndex s = int (length (history s)) - 1 \<longrightarrow>
              length (history (handleMouseUp Select s)) = length (history s) + 1)
         \<and> (js_index (history s) (historyIndex s) = Some (shapes s) \<longrightarrow>
              js_index (history (handleMouseUp Select s)) (historyIndex s)
                = js_index (history (handleMouseUp Select s)) (historyIndex s + 1))"
proof -
  let ?k = "nat (historyIndex s + 1)"
  have len: "length (take ?k (history s)) = ?k"
    using assms(3,4) by simp
  have eq: "handleMouseUp Select s =
           s\<lparr>history := take ?k (history s) @ [shapes s],
             historyIndex := historyIndex s + 1, selectedShapeId := None\<rparr>"
    using handleMouseUp_select [OF assms(1-3)] len assms(3) by simp
  have last: "js_index (take ?k (history s) @ [shapes s]) (historyIndex s + 1) = Some (shapes s)"
    using assms(3,4) len by (simp add: js_index_def nth_append)
  have prev: "js_index (take ?k (history s) @ [shapes s]) (historyIndex s)
                = js_index (history s) (historyIndex s)"
    using assms(3,4) by (simp add: js_index_def nth_append)
  show ?thesis
    using assms(3-5) len last prev
    by (simp add: eq handlePointerUp_eq canUndo_def canRedo_def)
qed


theorem C10_select_pointer_up_witness:
  "truthy (selectedShapeId example_touch_drag_state)
   \<and> \<not> (isDrawing example_touch_drag_state \<and> currentShape example_touch_drag_state \<noteq> None)
   \<and> 0 \<le> historyIndex example_touch_drag_state
   \<and> historyIndex example_touch_drag_state < int (length (history example_touch_drag_state))
   \<and> client_of (MouseEvent \<lparr>clientX = 25, clientY = 25\<rparr>) = Some \<lparr>clientX = 25, clientY = 25\<rparr>
   \<and> historyIndex example_touch_drag_state
        = int (length (history example_touch_drag_state)) - 1
   \<and> js_index (history example_touch_drag_state) (historyIndex example_touch_drag_state)
        = Some (shapes example_touch_drag_state)
   \<and> handlePointerUp Select (MouseEvent \<lparr>clientX = 25, clientY = 25\<rparr>) example_touch_drag_state
        = Done (handleMouseUp Select example_touch_drag_state)
   \<and> shapes (handleMouseUp Select example_touch_drag_state) = [example_rect]
   \<and> history (handleMouseUp Select example_touch_drag_state)
        = [[], [example_rect], [example_rect]]
   \<and> historyIndex (handleMouseUp Select example_touch_drag_state) = 2
   \<and> canUndo (handleMouseUp Select example_touch_drag_state)
   \<and> \<not> canRedo (handleMouseUp Select example_touch_drag_state)
   \<and> length (history (handleMouseUp Select example_touch_drag_state)) = 3"
proof -
  have h: "truthy (selectedShapeId example_touch_drag_state)"
    "\<not> (isDrawing example_touch_drag_state \<and> currentShape example_touch_drag_state \<noteq> None)"
    "0 \<le> historyIndex example_touch_drag_state"
    "historyIndex example_touch_drag_state < int (length (history example_touch_drag_state))"
    "client_of (MouseEvent \<lparr>clientX = 25, clientY = 25\<rparr>) = Some \<lparr>clientX = 25, clientY = 25\<rparr>"
    by (simp_all add: example_touch_drag_state_def initial_touch_state_def truthy_def)
  have v: "shapes example_touch_drag_state = [example_rect]"
    "history example_touch_drag_state = [[], [example_rect]]"
    "historyIndex example_touch_drag_state = 1"
    by (simp_all add: example_touch_drag_state_def initial_touch_state_def)
  show ?thesis
    using C10_select_pointer_up [OF h, of example_touch_drag_state] h
    by (simp add: v js_index_def)
qed

section \<open>Drag move: proofs\<close>

lemma move_shape_frame: "drag_frame sel a (move_shape sel off x y a)"
  by (simp add: drag_frame_def same_but_anchor_def move_shape_def)

lemma map_move_shape_frame:
  "list_all2 (drag_frame sel) xs (map (move_shape sel off x y) xs)"
  by (induction xs) (simp_all add: move_shape_frame)

lemma handleMouseMove_drag:
  assumes "truthy (selectedShapeId s)" and "\<not> isDrawing s"
  shows "handleMouseMove canvas Select m s
           = s\<lparr>shapes := shapes (handleMouseMove canvas Select m s)\<rparr>
         \<and> list_all2 (drag_frame (selectedShapeId s)) (shapes s)
             (shapes (handleMouseMove canvas Select m s))"
  using assms
  by (simp add: handleMouseMove_def Let_def map_move_shape_frame list.rel_refl
      drag_frame_def same_but_anchor_def)

lemma handlePointerMove_drag:
  assumes "truthy (selectedShapeId t)" and "\<not> isDrawing t" and "client_of e = Some c"
  shows "handlePointerMove canvas Select e t
           = Done (t\<lparr>shapes := shapes (state_of (handlePointerMove canvas Select e t))\<rparr>)
         \<and> list_all2 (drag_frame (selectedShapeId t)) (shapes t)
             (shapes (state_of (handlePointerMove canvas Select e t)))"
  using assms
  by (simp add: handlePointerMove_def Let_def map_move_shape_frame list.rel_refl
      drag_frame_def same_but_anchor_def)

text \<open>
  C9. A pointer-move with the select tool active, a shape selected and no drawing in
  progress changes the state cell \<open>shapes\<close> only. The scene keeps its length and order;
  each shape keeps its id, type, width, height, radius, x2, y2 and path, so only \<open>x\<close> and
  \<open>y\<close> can differ; and a shape whose id is not the selected id is unchanged. This holds
  for the move handlers of both sources (with no canvas element mounted nothing changes).
\<close>

theorem C9_drag_move_frame:
  assumes "truthy (selectedShapeId s)" and "\<not> isDrawing s"
    and "truthy (selectedShapeId t)" and "\<not> isDrawing t"
    and "client_of e = Some c"
  shows "handleMouseMove canvas Select m s
           = s\<lparr>shapes := shapes (handleMouseMove canvas Select m s)\<rparr>
         \<and> length (shapes (handleMouseMove canvas Select m s)) = length (shapes s)
         \<and> list_all2 (drag_frame (selectedShapeId s)) (shapes s)
             (shapes (handleMouseMove canvas Select m s))
         \<and> handlePointerMove canvas Select e t
             = Done (t\<lparr>shapes := shapes (state_of (handlePointerMove canvas Select e t))\<rparr>)
         \<and> length (shapes (state_of (handlePointerMove canvas Select e t))) = length (shapes t)
         \<and> list_all2 (drag_frame (selectedShapeId t)) (shapes t)
             (shapes (state_of (handlePointerMove canvas Select e t)))"
proof -
  note a = handleMouseMove_drag [OF assms(1,2), of canvas m]
  note b = handlePointerMove_drag [OF assms(3-5), of canvas]
  have la: "length (shapes (handleMouseMove canvas Select m s)) = length (shapes s)"
    by (rule list_all2_lengthD [OF a [THEN conjunct2], symmetric])
  have lb: "length (shapes (state_of (handlePointerMove canvas Select e t))) = length (shapes t)"
    by (rule list_all2_lengthD [OF b [THEN conjunct2], symmetric])
  from a b la lb show ?thesis by blast
qed

theorem C9_drag_move_frame_witness:
  "truthy (selectedShapeId example_select_two_state) \<and> \<not> isDrawing example_select_two_state
   \<and> truthy (selectedShapeId example_touch_two_state) \<and> \<not> isDrawing example_touch_two_state
   \<and> client_of (TouchEvent [\<lparr>clientX = 30, clientY = 40\<rparr>] \<lparr>clientX = 30, clientY = 40\<rparr>)
        = Some \<lparr>clientX = 30, clientY = 40\<rparr>
   \<and> shapes (handleMouseMove example_canvas Select \<lparr>clientX = 30, clientY = 40\<rparr>
         example_select_two_state)
        = [example_rect\<lparr>shape_x := 5, shape_y := 15\<rparr>, example_circle]
   \<and> list_all2 (drag_frame (Some ''1'')) [example_rect, example_circle]
        (shapes (handleMouseMove example_canvas Select \<lparr>clientX = 30, clientY = 40\<rparr>
           example_select_two_state))
   \<and> list_all2 (drag_frame (Some ''1'')) [example_rect, example_circle]
        (shapes (state_of (handlePointerMove example_canvas Select
           (TouchEvent [\<lparr>clientX = 30, clientY = 40\<rparr>] \<lparr>clientX = 30, clientY = 40\<rparr>)
           example_touch_two_state)))"
proof -
  have h: "truthy (selectedShapeId example_select_two_state)"
    "\<not> isDrawing example_select_two_state"
    "truthy (selectedShapeId example_touch_two_state)"
    "\<not> isDrawing example_touch_two_state"
    "client_of (TouchEvent [\<lparr>clientX = 30, clientY = 40\<rparr>] \<lparr>clientX = 30, clientY = 40\<rparr>)
        = Some \<lparr>clientX = 30, clientY = 40\<rparr>"
    by (simp_all add: example_select_two_state_def example_two_shapes_state_eq
        example_touch_two_state_def example_touch_drag_state_def initial_state_def
        initial_touch_state_def truthy_def)
  have v: "selectedShapeId example_select_two_state = Some ''1''"
    "shapes example_select_two_state = [example_rect, example_circle]"
    "selectedShapeId example_touch_two_state = Some ''1''"
    "shapes example_touch_two_state = [example_rect, example_circle]"
    by (simp_all add: example_select_two_state_def example_two_shapes_state_eq
        example_touch_two_state_def example_touch_drag_state_def initial_state_def
        initial_touch_state_def)
  have moved: "shapes (handleMouseMove example_canvas Select \<lparr>clientX = 30, clientY = 40\<rparr>
         example_select_two_state)
        = [example_rect\<lparr>shape_x := 5, shape_y := 15\<rparr>, example_circle]"
    by (simp add: handleMouseMove_def Let_def example_select_two_state_def
        example_two_shapes_state_eq initial_state_def truthy_def example_canvas_def
        getMousePos_def move_shape_def example_rect_def example_circle_def new_shape_def)
  show ?thesis
    using C9_drag_move_frame [OF h, of example_canvas "\<lparr>clientX = 30, clientY = 40\<rparr>"] h moved
    by (simp add: v)
qed


section \<open>Hit tests: proofs\<close>

lemma isInsideShape_touch_rect:
  assumes "shape_type sh = Rectangle"
  shows "isInsideShape_touch mobile x y sh \<longleftrightarrow>
           in_expanded_box (tolerance mobile) (shape_x sh) (shape_y sh)
             (num_or (shape_width sh) 0) (num_or (shape_height sh) 0) x y"
  using assms
  by (auto simp: isInsideShape_touch_def in_expanded_box_def Let_def min_def max_def)

lemma isInsideShape_rect:
  assumes "shape_type sh = Rectangle"
  shows "isInsideShape x y sh \<longleftrightarrow>
           in_expanded_box 0 (shape_x sh) (shape_y sh)
             (num_or (shape_width sh) 0) (num_or (shape_height sh) 0) x y"
  using assms
  by (auto simp: isInsideShape_def in_expanded_box_def Let_def min_def max_def)

text \<open>
  C6, amended. For a rectangle of any sign of width and height, the hit test of
  \<^verbatim>\<open>unnamed/part_000\<close> succeeds exactly when the point is in the sign-normalised bounding box
  expanded on all four sides by the tolerance (15 when \<open>isMobile\<close>, else 8), bounds
  included; the hit test of \<^verbatim>\<open>src/components/Canvas.tsx\<close> succeeds exactly when the point is
  in the sign-normalised bounding box itself, bounds included, with no margin.
\<close>

theorem C6_rectangle_hit_test:
  assumes "shape_type sh = Rectangle"
  shows "(isInsideShape_touch mobile x y sh \<longleftrightarrow>
            in_expanded_box (tolerance mobile) (shape_x sh) (shape_y sh)
              (num_or (shape_width sh) 0) (num_or (shape_height sh) 0) x y)
         \<and> (isInsideShape x y sh \<longleftrightarrow>
            in_expanded_box 0 (shape_x sh) (shape_y sh)
              (num_or (shape_width sh) 0) (num_or (shape_height sh) 0) x y)"
  using isInsideShape_touch_rect [OF assms] isInsideShape_rect [OF assms] by simp

text \<open>
  C6, as stated, fails for \<^verbatim>\<open>src/components/Canvas.tsx\<close>: the point (55,25) is 5 to the right of
  the square from (0,0) to (50,50), so inside the box expanded by the tolerance 8 that this
  source applies to lines and pen strokes, and the hit test rejects it.
\<close>

theorem C6_rectangle_hit_test_counterexample:
  "shape_type example_rect = Rectangle
   \<and> in_expanded_box 8 (shape_x example_rect) (shape_y example_rect)
        (num_or (shape_width example_rect) 0) (num_or (shape_height example_rect) 0) 55 25
   \<and> \<not> isInsideShape 55 25 example_rect"
  by (simp add: example_rect_def new_shape_def in_expanded_box_def isInsideShape_def num_or_def)

theorem C6_rectangle_hit_test_witness:
  "shape_type example_flipped_rect = Rectangle
   \<and> isInsideShape_touch False (- 8) 58 example_flipped_rect
   \<and> \<not> isInsideShape_touch False (- 9) 58 example_flipped_rect
   \<and> isInsideShape_touch True (- 15) (- 15) example_flipped_rect
   \<and> isInsideShape 0 50 example_flipped_rect
   \<and> \<not> isInsideShape (- 1) 50 example_flipped_rect"
proof -
  have h: "shape_type example_flipped_rect = Rectangle"
    by (simp add: example_flipped_rect_def new_shape_def)
  have v: "shape_x example_flipped_rect = 50" "shape_y example_flipped_rect = 50"
    "num_or (shape_width example_flipped_rect) 0 = - 50"
    "num_or (shape_height example_flipped_rect) 0 = - 50"
    by (simp_all add: example_flipped_rect_def new_shape_def num_or_def)
  show ?thesis
    using h C6_rectangle_hit_test [OF h, of False "- 8" 58]
      C6_rectangle_hit_test [OF h, of False "- 9" 58]
      C6_rectangle_hit_test [OF h, of True "- 15" "- 15"]
      C6_rectangle_hit_test [OF h, of False 0 50]
      C6_rectangle_hit_test [OF h, of False "- 1" 50]
    by (simp add: v in_expanded_box_def tolerance_def)
qed

lemma euclid_dist_mult: "euclid_dist x y ax ay = sqrt ((x - ax) * (x - ax) + (y - ay) * (y - ay))"
  by (simp add: euclid_dist_def power2_eq_square)

text \<open>
  C7, amended. For a circle, the hit test of \<^verbatim>\<open>unnamed/part_000\<close> succeeds exactly when the
  Euclidean distance from the point to the anchor is at most radius plus tolerance (15 when
  \<open>isMobile\<close>, else 8); the hit test of \<^verbatim>\<open>src/components/Canvas.tsx\<close> succeeds exactly when
  that distance is at most the radius. In both, every point of the disk is contained, and
  so is the centre when the radius is not negative.
\<close>

theorem C7_circle_hit_test:
  assumes "shape_type sh = Circle"
  shows "(isInsideShape_touch mobile x y sh \<longleftrightarrow>
            euclid_dist x y (shape_x sh) (shape_y sh)
              \<le> num_or (shape_radius sh) 0 + tolerance mobile)
         \<and> (isInsideShape x y sh \<longleftrightarrow>
            euclid_dist x y (shape_x sh) (shape_y sh) \<le> num_or (shape_radius sh) 0)
         \<and> (euclid_dist x y (shape_x sh) (shape_y sh) \<le> num_or (shape_radius sh) 0 \<longrightarrow>
              isInsideShape x y sh \<and> isInsideShape_touch mobile x y sh)
         \<and> (0 \<le> num_or (shape_radius sh) 0 \<longrightarrow>
              isInsideShape (shape_x sh) (shape_y sh) sh
              \<and> isInsideShape_touch mobile (shape_x sh) (shape_y sh) sh)"
  using assms
  by (auto simp: isInsideShape_def isInsideShape_touch_def Let_def euclid_dist_mult tolerance_def)

lemma sqrt_225: "sqrt 225 = 15"
  using real_sqrt_abs [of 15] by simp

text \<open>
  C7, as stated, fails for \<^verbatim>\<open>src/components/Canvas.tsx\<close>: the point (115,100) is at distance 15
  from the centre of the circle of radius 10 at (100,100), so within radius plus the
  tolerance 8 of this source, and the hit test rejects it.
\<close>

theorem C7_circle_hit_test_counterexample:
  "shape_type example_circle = Circle
   \<and> euclid_dist 115 100 (shape_x example_circle) (shape_y example_circle)
        \<le> num_or (shape_radius example_circle) 0 + 8
   \<and> \<not> isInsideShape 115 100 example_circle"
  by (simp add: example_circle_def new_shape_def euclid_dist_def isInsideShape_def num_or_def
      sqrt_225)

theorem C7_circle_hit_test_witness:
  "shape_type example_circle = Circle
   \<and> 0 \<le> num_or (shape_radius example_circle) 0
   \<and> euclid_dist 115 100 (shape_x example_circle) (shape_y example_circle) = 15
   \<and> isInsideShape_touch False 115 100 example_circle
   \<and> isInsideShape_touch True 115 100 example_circle
   \<and> \<not> isInsideShape 115 100 example_circle
   \<and> isInsideShape 100 100 example_circle
   \<and> isInsideShape_touch False 100 100 example_circle"
proof -
  have h: "shape_type example_circle = Circle"
    by (simp add: example_circle_def new_shape_def)
  have v: "shape_x example_circle = 100" "shape_y example_circle = 100"
    "num_or (shape_radius example_circle) 0 = 10"
    by (simp_all add: example_circle_def new_shape_def num_or_def)
  have d: "euclid_dist 115 100 100 100 = 15"
    by (simp add: euclid_dist_def sqrt_225)
  show ?thesis
    using h C7_circle_hit_test [OF h, of False 115 100] C7_circle_hit_test [OF h, of True 115 100]
    by (simp add: v d tolerance_def)
qed


section \<open>Distance to a segment: proofs\<close>

lemma sq_diff_factor:
  fixes A B C D u c :: real
  shows "((A - u * C)\<^sup>2 + (B - u * D)\<^sup>2) - ((A - c * C)\<^sup>2 + (B - c * D)\<^sup>2)
         = (u - c) * ((C * C + D * D) * (u + c) - 2 * (A * C + B * D))"
  by (simp add: power2_eq_square algebra_simps)

lemma clamp_minimises:
  fixes A B C D u :: real
  assumes nz: "C * C + D * D \<noteq> 0" and u: "0 \<le> u" "u \<le> 1"
  defines "c \<equiv> clamp01 ((A * C + B * D) / (C * C + D * D))"
  shows "(A - c * C)\<^sup>2 + (B - c * D)\<^sup>2 \<le> (A - u * C)\<^sup>2 + (B - u * D)\<^sup>2"
proof -
  define L where "L = C * C + D * D"
  define dot where "dot = A * C + B * D"
  have c: "c = clamp01 (dot / L)" by (simp add: c_def L_def dot_def)
  have "0 \<le> L" by (simp add: L_def)
  moreover have "L \<noteq> 0" unfolding L_def by (rule nz)
  ultimately have Lpos: "0 < L" by linarith
  have "0 \<le> (u - c) * (L * (u + c) - 2 * dot)"
  proof -
    consider (lo) "dot / L < 0" | (hi) "dot / L > 1" | (mid) "0 \<le> dot / L" "dot / L \<le> 1"
      by linarith
    then show ?thesis
    proof cases
      case lo
      then have c0: "c = 0" by (simp add: c clamp01_def)
      from lo Lpos have "dot < 0" by (simp add: divide_less_0_iff)
      moreover have "0 \<le> L * u" using Lpos u by simp
      ultimately have "0 \<le> L * u - 2 * dot" by linarith
      with u show ?thesis unfolding c0 by simp
    next
      case hi
      then have c1: "c = 1" by (simp add: c clamp01_def)
      from hi Lpos have d: "L < dot" by (simp add: less_divide_eq)
      have "L * u \<le> L * 1" using Lpos u by (intro mult_left_mono) simp_all
      then have "L * (u + 1) - 2 * dot \<le> 0" using d by (simp add: algebra_simps)
      with u have "0 \<le> (u - 1) * (L * (u + 1) - 2 * dot)"
        by (intro mult_nonpos_nonpos) simp_all
      then show ?thesis unfolding c1 .
    next
      case mid
      then have cm: "c = dot / L" by (simp add: c clamp01_def)
      have "dot = c * L" using Lpos by (simp add: cm)
      then have "(u - c) * (L * (u + c) - 2 * dot) = L * (u - c)\<^sup>2"
        by (simp add: power2_eq_square algebra_simps)
      also have "0 \<le> \<dots>" using Lpos by simp
      finally show ?thesis by simp
    qed
  qed
  then show ?thesis
    using sq_diff_factor [of A u C B D c] unfolding L_def dot_def by linarith
qed

lemma pointToLineDistance_degenerate:
  "pointToLineDistance x y x1 y1 x1 y1 = Some (euclid_dist x y x1 y1)"
  by (simp add: pointToLineDistance_def Let_def euclid_dist_def power2_eq_square)

lemma pointToLineDistance_proper:
  assumes "(x2 - x1) * (x2 - x1) + (y2 - y1) * (y2 - y1) \<noteq> 0"
  shows "pointToLineDistance x y x1 y1 x2 y2
           = Some (segment_dist
               (clamp01 (projection_param x y x1 y1 x2 y2))
               x y x1 y1 x2 y2)"
  using assms
  by (simp add: pointToLineDistance_def js_div_def Let_def segment_dist_def euclid_dist_def
      clamp01_def projection_param_def power2_eq_square)

lemma segment_dist_le:
  assumes "(x2 - x1) * (x2 - x1) + (y2 - y1) * (y2 - y1) \<noteq> 0" and "0 \<le> u" and "u \<le> 1"
  shows "segment_dist
           (clamp01 (projection_param x y x1 y1 x2 y2))
           x y x1 y1 x2 y2
         \<le> segment_dist u x y x1 y1 x2 y2"
proof -
  have eq: "\<And>t. (x - (x1 + t * (x2 - x1)))\<^sup>2 + (y - (y1 + t * (y2 - y1)))\<^sup>2
            = ((x - x1) - t * (x2 - x1))\<^sup>2 + ((y - y1) - t * (y2 - y1))\<^sup>2"
    by (simp add: algebra_simps)
  show ?thesis
    unfolding segment_dist_def euclid_dist_def eq projection_param_def
    by (rule real_sqrt_le_mono) (rule clamp_minimises [OF assms])
qed

lemma coincide_iff:
  fixes x1 y1 x2 y2 :: real
  shows "(x2 - x1) * (x2 - x1) + (y2 - y1) * (y2 - y1) = 0 \<longleftrightarrow> x1 = x2 \<and> y1 = y2"
  by auto


text \<open>
  C8. \<open>pointToLineDistance\<close> returns a number for every input: the division is guarded, so
  no division by zero is performed. For a segment whose endpoints coincide the result is
  the distance from the query point to that endpoint. Otherwise it is the distance to the
  point of the segment at the projection parameter clamped to [0,1], and no point of the
  segment is closer.
\<close>

theorem C8_pointToLineDistance_total:
  "(\<exists>d. pointToLineDistance x y x1 y1 x2 y2 = Some d)
   \<and> pointToLineDistance x y x1 y1 x1 y1 = Some (euclid_dist x y x1 y1)
   \<and> (x1 \<noteq> x2 \<or> y1 \<noteq> y2 \<longrightarrow>
        pointToLineDistance x y x1 y1 x2 y2
          = Some (segment_dist (clamp01 (projection_param x y x1 y1 x2 y2)) x y x1 y1 x2 y2)
        \<and> (\<forall>u. 0 \<le> u \<and> u \<le> 1 \<longrightarrow>
              segment_dist (clamp01 (projection_param x y x1 y1 x2 y2)) x y x1 y1 x2 y2
                \<le> segment_dist u x y x1 y1 x2 y2))"
proof (cases "x1 = x2 \<and> y1 = y2")
  case True
  then show ?thesis by (simp add: pointToLineDistance_degenerate)
next
  case False
  then have nz: "(x2 - x1) * (x2 - x1) + (y2 - y1) * (y2 - y1) \<noteq> 0"
    by (auto simp: coincide_iff)
  show ?thesis
    using False pointToLineDistance_proper [OF nz, of x y] segment_dist_le [OF nz, of _ x y]
    by (simp add: pointToLineDistance_degenerate)
qed

lemma sqrt_25: "sqrt 25 = 5"
  using real_sqrt_abs [of 5] by simp

theorem C8_pointToLineDistance_total_witness:
  "pointToLineDistance 5 5 0 0 10 0 = Some 5
   \<and> pointToLineDistance 3 4 0 0 0 0 = Some 5
   \<and> clamp01 (projection_param 5 5 0 0 10 0) = 1 / 2
   \<and> (0::real) \<le> 1 \<and> (1::real) \<le> 1
   \<and> 5 \<le> segment_dist 1 5 5 0 0 10 0"
proof -
  have p: "projection_param 5 5 0 0 10 0 = 1 / 2"
    by (simp add: projection_param_def)
  have c: "clamp01 (1 / 2) = 1 / 2"
    by (simp add: clamp01_def)
  have s: "segment_dist (1 / 2) 5 5 0 0 10 0 = 5"
    by (simp add: segment_dist_def euclid_dist_def sqrt_25)
  have e: "euclid_dist 3 4 0 0 = 5"
    by (simp add: euclid_dist_def sqrt_25)
  show ?thesis
    using C8_pointToLineDistance_total [of 5 5 0 0 10 0] C8_pointToLineDistance_total [of 3 4 0 0 0 0]
    by (simp add: p c s e)
qed

section \<open>Dragging a pen stroke\<close>

lemma example_pen_drawn_eq:
  "example_pen_drawn = initial_state\<lparr>shapes := [example_pen], history := [[], [example_pen]],
     historyIndex := 1\<rparr>"
  by (simp add: example_pen_drawn_def example_pen_def initial_state_def handleMouseUp_def
      handleMouseMove_def handleMouseDown_def example_canvas_def getMousePos_def Let_def
      new_shape_def draw_update_def saveToHistory_def slice0_def)

lemma example_pen_hit: "isInsideShape 5 0 example_pen"
  by (simp add: isInsideShape_def example_pen_def new_shape_def pointToLineDistance_def
      js_div_def num_lt_def Let_def)

lemma example_pen_dragged_eq:
  "example_pen_dragged =
     initial_state\<lparr>shapes := [example_pen\<lparr>shape_y := 20\<rparr>],
       history := [[], [example_pen], [example_pen\<lparr>shape_y := 20\<rparr>]],
       historyIndex := 2, startX := 5, offset := \<lparr>point_x = 5, point_y = 0\<rparr>\<rparr>"
  by (simp add: example_pen_dragged_def example_pen_drawn_eq initial_state_def handleMouseUp_def
      handleMouseMove_def handleMouseDown_def example_canvas_def getMousePos_def Let_def
      example_pen_hit truthy_def move_shape_def saveToHistory_def slice0_def)
    (simp add: example_pen_def new_shape_def)

text \<open>
  C5 at a failing input. After the stroke from (0,0) to (10,0) has been drawn and committed,
  the first point of its path is its anchor. After it has been dragged by (0,20) with the
  select tool and the move committed, the scene of the state and of the history holds a
  pen shape with anchor (0,20) whose path still starts at (0,0): the drag branch of the
  move handler rewrites \<open>x\<close> and \<open>y\<close> and leaves the path where it was.
\<close>

theorem C5_pen_anchor_failing_input:
  "list_all pen_anchor_ok (shapes example_pen_drawn)
   \<and> shapes example_pen_dragged = [example_pen\<lparr>shape_y := 20\<rparr>]
   \<and> js_index (history example_pen_dragged) (historyIndex example_pen_dragged)
        = Some [example_pen\<lparr>shape_y := 20\<rparr>]
   \<and> shape_type (example_pen\<lparr>shape_y := 20\<rparr>) = Pen
   \<and> shape_path (example_pen\<lparr>shape_y := 20\<rparr>)
        = Some [\<lparr>point_x = 0, point_y = 0\<rparr>, \<lparr>point_x = 10, point_y = 0\<rparr>]
   \<and> shape_x (example_pen\<lparr>shape_y := 20\<rparr>) = 0
   \<and> shape_y (example_pen\<lparr>shape_y := 20\<rparr>) = 20
   \<and> \<not> list_all pen_anchor_ok (shapes example_pen_dragged)"
  by (simp add: example_pen_drawn_eq example_pen_dragged_eq initial_state_def js_index_def
      pen_anchor_ok_def example_pen_def new_shape_def)


end
